theory Spec2Isabelle
  imports Main
begin

section \<open>Python values, exceptions and effectful programs\<close>

text \<open>
  The plug-ins are Python 2 code running inside a host application. Their own logic is
  embedded here; every call into the host (operating system, database client, template
  formatting, scene API) is a field of a host record, so that the theorems hold for any
  behaviour of the host.
\<close>

datatype pyval = PyStr string | PyInt int | PyBool bool

datatype exn =
    KeyError string
  | AssertionError
  | TypeError
  | IndexError
  | ValueError
  | AttributeError
  | RuntimeError
  | OSError int
  | IOError int
  | ShutilError

text \<open>
  A program takes the mutable state and returns either the exception it raised
  (\<open>Inl\<close>) or its value (\<open>Inr\<close>), together with the state at that point: what was
  written before an exception stays written.
\<close>

type_synonym ('s, 'a) prog = "'s \<Rightarrow> (exn + 'a) \<times> 's"

definition ret :: "'a \<Rightarrow> ('s, 'a) prog" where
  "ret x = (\<lambda>s. (Inr x, s))"

definition raise :: "exn \<Rightarrow> ('s, 'a) prog" where
  "raise e = (\<lambda>s. (Inl e, s))"

definition bnd :: "('s, 'a) prog \<Rightarrow> ('a \<Rightarrow> ('s, 'b) prog) \<Rightarrow> ('s, 'b) prog" where
  "bnd m f = (\<lambda>s. case m s of (Inl e, s') \<Rightarrow> (Inl e, s') | (Inr x, s') \<Rightarrow> f x s')"

definition gets :: "('s \<Rightarrow> 'a) \<Rightarrow> ('s, 'a) prog" where
  "gets f = (\<lambda>s. (Inr (f s), s))"

definition modify :: "('s \<Rightarrow> 's) \<Rightarrow> ('s, unit) prog" where
  "modify f = (\<lambda>s. (Inr (), f s))"

definition lift :: "exn + 'a \<Rightarrow> ('s, 'a) prog" where
  "lift r = (\<lambda>s. (r, s))"

definition py_assert :: "bool \<Rightarrow> ('s, unit) prog" where
  "py_assert b = (if b then ret () else raise AssertionError)"

definition item :: "string \<Rightarrow> 'a option \<Rightarrow> ('s, 'a) prog" where
  \<comment> \<open>\<open>d[k]\<close> on a dictionary whose entry for \<open>k\<close> is the given option\<close>
  "item k v = (case v of None \<Rightarrow> raise (KeyError k) | Some x \<Rightarrow> ret x)"

definition is_raise :: "(exn + 'a) \<times> 's \<Rightarrow> bool" where
  "is_raise r = (case fst r of Inl e \<Rightarrow> True | Inr x \<Rightarrow> False)"

section \<open>The integrator (plugins/publish/integrate.py)\<close>

subsection \<open>Documents of the database\<close>

type_synonym oid = nat

record rcontext =
  c_project :: string
  c_asset :: string
  c_silo :: string
  c_subset :: pyval
  c_version :: int
  c_representation :: string

record representation =
  r_schema :: string
  r_type :: string
  r_parent :: oid
  r_name :: string
  r_label :: "string option"
  r_dependencies :: "string list"
  r_context :: rcontext

text \<open>
  \<open>instance.data\<close>: a dictionary; a key that is absent is \<open>None\<close> here, and reading it
  with \<open>[]\<close> raises KeyError. \<open>assumedVersion\<close> is
  \<open>instance.data["assumedTemplateData"]["version"]\<close>.
\<close>

record inst =
  asset :: "string option"
  stagingDir :: "string option"
  subset :: "string option"
  assumedVersion :: "int option"
  transfers :: "(string \<times> string) list option"
  representations :: "representation list option"
  dependencies :: "string option"
  families :: "string list option"
  family :: "string option"

text \<open>\<open>context.data\<close>, read only.\<close>

record ctxdata =
  results :: "bool list option"
  currentFile :: "string option"
  time :: "string option"
  user :: "string option"
  comment :: "string option"

record version_data =
  vd_families :: "string list"
  vd_time :: string
  vd_author :: string
  vd_source :: string
  vd_comment :: "string option"
  vd_instance :: inst

datatype body =
    ProjectDoc string
  | AssetDoc string oid
  | SubsetDoc string oid
  | VersionDoc oid int "string list" version_data
  | RepresentationDoc representation

type_synonym document = "oid \<times> body"

fun doc_type :: "body \<Rightarrow> string" where
  "doc_type (ProjectDoc t) = ''project''"
| "doc_type (AssetDoc n p) = ''asset''"
| "doc_type (SubsetDoc n p) = ''subset''"
| "doc_type (VersionDoc p n l d) = ''version''"
| "doc_type (RepresentationDoc r) = ''representation''"

fun doc_name :: "body \<Rightarrow> pyval option" where
  "doc_name (ProjectDoc t) = None"
| "doc_name (AssetDoc n p) = Some (PyStr n)"
| "doc_name (SubsetDoc n p) = Some (PyStr n)"
| "doc_name (VersionDoc p n l d) = Some (PyInt n)"
| "doc_name (RepresentationDoc r) = Some (PyStr (r_name r))"

fun doc_parent :: "body \<Rightarrow> oid option" where
  "doc_parent (ProjectDoc t) = None"
| "doc_parent (AssetDoc n p) = Some p"
| "doc_parent (SubsetDoc n p) = Some p"
| "doc_parent (VersionDoc p n l d) = Some p"
| "doc_parent (RepresentationDoc r) = Some (r_parent r)"

subsection \<open>The world the integrator acts on\<close>

text \<open>File-system calls that change the disk, in the order they were made.\<close>

datatype oscall = Makedirs string | Copy string string | Rmtree string

record world =
  db :: "document list"
  trace :: "oscall list"
  idata :: inst

datatype format_error = MissingField string | BadIndex | BadFormat

fun format_exn :: "format_error \<Rightarrow> exn" where
  "format_exn (MissingField k) = KeyError k"
| "format_exn BadIndex = IndexError"
| "format_exn BadFormat = ValueError"

text \<open>
  The host: \<open>os.environ\<close>, \<open>api.registered_root()\<close>, \<open>os.path\<close>, \<open>str.format\<close> and
  the file system. A file-system call sees the calls made before it. \<open>os.listdir\<close>,
  \<open>os.makedirs\<close> and \<open>shutil.rmtree\<close> fail with an OSError, given by its errno.
\<close>

record host =
  environ :: "(string \<times> string) list"
  registered_root :: string
  path_join :: "string \<Rightarrow> string \<Rightarrow> string"
  path_dirname :: "string \<Rightarrow> string"
  path_splitext :: "string \<Rightarrow> string \<times> string"
  path_relpath :: "string \<Rightarrow> string \<Rightarrow> string"
  str_format :: "string \<Rightarrow> (string \<rightharpoonup> pyval) \<Rightarrow> format_error + string"
  listdir :: "string \<Rightarrow> oscall list \<Rightarrow> int + string list"
  makedirs :: "string \<Rightarrow> oscall list \<Rightarrow> int option"
  copy :: "string \<Rightarrow> string \<Rightarrow> oscall list \<Rightarrow> exn option"
  rmtree :: "string \<Rightarrow> oscall list \<Rightarrow> int option"

definition EEXIST :: int where
  "EEXIST = 17"

definition environ_item :: "host \<Rightarrow> string \<Rightarrow> ('s, string) prog" where
  \<comment> \<open>\<open>os.environ[k]\<close>\<close>
  "environ_item h k = item k (map_of (environ h) k)"

subsection \<open>The database client\<close>

definition find_one :: "(document \<Rightarrow> bool) \<Rightarrow> (world, document option) prog" where
  \<comment> \<open>\<open>io.find_one(query)\<close>: the first document that matches\<close>
  "find_one q = gets (\<lambda>s. find q (db s))"

fun latest_by_name :: "document list \<Rightarrow> document option" where
  \<comment> \<open>the document with the greatest integer name, the earliest one among equals\<close>
  "latest_by_name [] = None"
| "latest_by_name (d # ds) =
     (case latest_by_name ds of
        None \<Rightarrow> Some d
      | Some d' \<Rightarrow>
          (case (doc_name (snd d), doc_name (snd d')) of
             (Some (PyInt n), Some (PyInt n')) \<Rightarrow> if n' > n then Some d' else Some d
           | _ \<Rightarrow> Some d))"

definition find_one_sorted :: "(document \<Rightarrow> bool) \<Rightarrow> (world, document option) prog" where
  \<comment> \<open>\<open>io.find_one(query, sort=[("name", -1)])\<close>\<close>
  "find_one_sorted q = gets (\<lambda>s. latest_by_name (filter q (db s)))"

definition fresh_id :: "document list \<Rightarrow> oid" where
  "fresh_id ds = Suc (fold max (map fst ds) 0)"

definition insert_one :: "body \<Rightarrow> (world, oid) prog" where
  \<comment> \<open>\<open>io.insert_one(doc).inserted_id\<close>\<close>
  "insert_one b = (\<lambda>s. let i = fresh_id (db s) in (Inr i, s\<lparr>db := db s @ [(i, b)]\<rparr>))"

fun insert_many :: "body list \<Rightarrow> (world, unit) prog" where
  "insert_many [] = ret ()"
| "insert_many (b # bs) = bnd (insert_one b) (\<lambda>_. insert_many bs)"

subsection \<open>The plug-in's methods\<close>

definition get_subset :: "document \<Rightarrow> (world, document option) prog" where
  "get_subset asset_doc =
     bnd (bnd (gets (\<lambda>s. subset (idata s))) (item ''subset'')) (\<lambda>subset_name.
     bnd (find_one (\<lambda>d. doc_type (snd d) = ''subset''
                        \<and> doc_parent (snd d) = Some (fst asset_doc)
                        \<and> doc_name (snd d) = Some (PyStr subset_name))) (\<lambda>found.
     case found of
       None \<Rightarrow>
         bnd (insert_one (SubsetDoc subset_name (fst asset_doc))) (\<lambda>new_id.
         find_one (\<lambda>d. fst d = new_id))
     | Some d \<Rightarrow> ret (Some d)))"

definition create_version ::
  "document \<Rightarrow> int \<Rightarrow> string option list \<Rightarrow> version_data \<Rightarrow> body" where
  "create_version subset_doc version_number locations data =
     VersionDoc (fst subset_doc) version_number
       (concat (map (\<lambda>location. case location of None \<Rightarrow> [] | Some l \<Rightarrow> [l]) locations))
       data"

definition create_version_data :: "host \<Rightarrow> ctxdata \<Rightarrow> (world, version_data) prog" where
  "create_version_data h ctx =
     bnd (gets idata) (\<lambda>data.
     let current_families = (case families data of None \<Rightarrow> [] | Some fs \<Rightarrow> fs);
         fams = current_families @ (case family data of None \<Rightarrow> [] | Some f \<Rightarrow> [f]) in
     bnd (item ''currentFile'' (currentFile ctx)) (\<lambda>current_file.
     let relative_path = path_relpath h current_file (registered_root h);
         source = map (\<lambda>c. if c = CHR 0x5C then CHR ''/'' else c)
                    (path_join h ''{root}'' relative_path) in
     bnd (item ''time'' (time ctx)) (\<lambda>t.
     bnd (item ''user'' (user ctx)) (\<lambda>u.
     ret \<lparr>vd_families = fams, vd_time = t, vd_author = u, vd_source = source,
          vd_comment = comment ctx, vd_instance = data\<rparr>))))"

fun split_ws :: "string \<Rightarrow> string \<Rightarrow> string list" where
  \<comment> \<open>\<open>str.split()\<close>: the maximal runs of non-blank characters; the first argument is
     the run read so far\<close>
  "split_ws w [] = (if w = [] then [] else [w])"
| "split_ws w (c # cs) =
     (if c \<in> set [CHR '' '', CHR 0x09, CHR 0x0A, CHR 0x0B, CHR 0x0C, CHR 0x0D]
      then (if w = [] then split_ws [] cs else w # split_ws [] cs)
      else split_ws (w @ [c]) cs)"

definition representation_labels :: "(string \<times> string) list" where
  "representation_labels =
     [(''.ma'', ''Maya Ascii''), (''.source'', ''Original source file''), (''.abc'', ''Alembic'')]"

definition append_transfer :: "string \<times> string \<Rightarrow> (world, unit) prog" where
  \<comment> \<open>\<open>instance.data["transfers"].append([src, dst])\<close>\<close>
  "append_transfer t =
     bnd (bnd (gets (\<lambda>s. transfers (idata s))) (item ''transfers'')) (\<lambda>ts.
     modify (\<lambda>s. s\<lparr>idata := (idata s)\<lparr>transfers := Some (ts @ [t])\<rparr>\<rparr>))"

text \<open>
  The body of the loop over the staging directory's files, and the loop. The
  template data dictionary is updated in place at each file, so it is handed on.
\<close>

definition register_file ::
  "host \<Rightarrow> string \<Rightarrow> string \<Rightarrow> oid \<Rightarrow> rcontext \<Rightarrow> (string \<rightharpoonup> pyval) \<Rightarrow> string
     \<Rightarrow> (world, representation \<times> (string \<rightharpoonup> pyval)) prog" where
  "register_file h stagingdir template_publish version_id cx template_data fname =
     (let ext = snd (path_splitext h fname);
          template_data' = template_data(''representation'' \<mapsto> PyStr (drop 1 ext));
          src = path_join h stagingdir fname in
      bnd (lift (map_sum format_exn id (str_format h template_publish template_data'))) (\<lambda>dst0.
      let dst = (if fname = ''.metadata.json''
                 then path_join h (path_dirname h dst0) fname else dst0) in
      bnd (append_transfer (src, dst)) (\<lambda>_.
      bnd (gets (\<lambda>s. dependencies (idata s))) (\<lambda>deps.
      ret (\<lparr>r_schema = ''avalon-core:representation-2.0'',
            r_type = ''representation'',
            r_parent = version_id,
            r_name = drop 1 ext,
            r_label = map_of representation_labels ext,
            r_dependencies = split_ws [] (case deps of None \<Rightarrow> [] | Some d \<Rightarrow> d),
            r_context = cx\<lparr>c_representation := drop 1 ext\<rparr>\<rparr>,
           template_data')))))"

fun register_files ::
  "host \<Rightarrow> string \<Rightarrow> string \<Rightarrow> oid \<Rightarrow> rcontext \<Rightarrow> (string \<rightharpoonup> pyval) \<Rightarrow> string list
     \<Rightarrow> representation list \<Rightarrow> (world, representation list) prog" where
  "register_files h stagingdir template_publish version_id cx template_data [] reps = ret reps"
| "register_files h stagingdir template_publish version_id cx template_data (fname # rest) reps =
     bnd (register_file h stagingdir template_publish version_id cx template_data fname)
       (\<lambda>(rep, template_data').
          register_files h stagingdir template_publish version_id cx template_data' rest
            (reps @ [rep]))"

definition next_version_of :: "document option \<Rightarrow> (world, int) prog" where
  \<comment> \<open>\<open>next_version = 1; if latest_version is not None: next_version += latest_version["name"]\<close>\<close>
  "next_version_of latest_version =
     (case latest_version of
        None \<Rightarrow> ret 1
      | Some d \<Rightarrow>
          (case doc_name (snd d) of
             None \<Rightarrow> raise (KeyError ''name'')
           | Some (PyInt n) \<Rightarrow> ret (1 + n)
           | Some _ \<Rightarrow> raise TypeError))"

definition register :: "host \<Rightarrow> ctxdata \<Rightarrow> (world, representation list) prog" where
  "register h ctx =
     bnd (environ_item h ''AVALON_PROJECT'') (\<lambda>PROJECT.
     bnd (bnd (gets (\<lambda>s. asset (idata s))) (\<lambda>a.
            case a of
              None \<Rightarrow> environ_item h ''AVALON_ASSET''
            | Some n \<Rightarrow> if n \<noteq> [] then ret n else environ_item h ''AVALON_ASSET'')) (\<lambda>ASSET.
     bnd (environ_item h ''AVALON_SILO'') (\<lambda>SILO.
     let LOCATION = map_of (environ h) ''AVALON_LOCATION'' in
     bnd (item ''results'' (results ctx)) (\<lambda>rs.
     bnd (py_assert (list_all (\<lambda>success. success) rs)) (\<lambda>_.
     bnd (gets (\<lambda>s. stagingDir (idata s))) (\<lambda>sd.
     bnd (py_assert (sd \<noteq> None \<and> sd \<noteq> Some [])) (\<lambda>_.
     let stagingdir = the sd in
     bnd (find_one (\<lambda>d. doc_type (snd d) = ''project'')) (\<lambda>project.
     bnd (case project of None \<Rightarrow> raise TypeError | Some p \<Rightarrow> ret p) (\<lambda>project_doc.
     bnd (find_one (\<lambda>d. doc_type (snd d) = ''asset''
                        \<and> doc_name (snd d) = Some (PyStr ASSET)
                        \<and> doc_parent (snd d) = Some (fst project_doc))) (\<lambda>asset_found.
     bnd (py_assert (asset_found \<noteq> None)) (\<lambda>_.
     bnd (get_subset (the asset_found)) (\<lambda>subset_found.
     bnd (case subset_found of None \<Rightarrow> raise TypeError | Some d \<Rightarrow> ret d) (\<lambda>subset_doc.
     bnd (find_one_sorted (\<lambda>d. doc_type (snd d) = ''version''
                               \<and> doc_parent (snd d) = Some (fst subset_doc))) (\<lambda>latest_version.
     bnd (next_version_of latest_version) (\<lambda>next_version.
     bnd (bnd (gets (\<lambda>s. assumedVersion (idata s))) (item ''assumedTemplateData''))
       (\<lambda>assumed_version.
     bnd (if assumed_version \<noteq> next_version then raise AttributeError else ret ()) (\<lambda>_.
     bnd (create_version_data h ctx) (\<lambda>vdata.
     let version = create_version subset_doc next_version [LOCATION] vdata in
     bnd (insert_one version) (\<lambda>version_id.
     let root = registered_root h in
     bnd (item ''name'' (doc_name (snd subset_doc))) (\<lambda>subset_name.
     let template_data = [''root'' \<mapsto> PyStr root, ''project'' \<mapsto> PyStr PROJECT,
                          ''silo'' \<mapsto> PyStr SILO, ''asset'' \<mapsto> PyStr ASSET,
                          ''subset'' \<mapsto> subset_name, ''version'' \<mapsto> PyInt next_version] in
     bnd (case snd project_doc of ProjectDoc t \<Rightarrow> ret t | _ \<Rightarrow> raise (KeyError ''config''))
       (\<lambda>template_publish.
     bnd (gets (\<lambda>s. map_sum OSError id (listdir h stagingdir (trace s)))) (\<lambda>listing.
     bnd (lift listing) (\<lambda>staging_content.
     bnd (register_files h stagingdir template_publish version_id
            \<lparr>c_project = PROJECT, c_asset = ASSET, c_silo = SILO, c_subset = subset_name,
             c_version = next_version, c_representation = []\<rparr>
            template_data staging_content []) (\<lambda>reps.
     bnd (modify (\<lambda>s. s\<lparr>idata := (idata s)\<lparr>representations := Some reps\<rparr>\<rparr>)) (\<lambda>_.
     ret reps)))))))))))))))))))))))))"

definition copy_file :: "host \<Rightarrow> string \<Rightarrow> string \<Rightarrow> (world, unit) prog" where
  "copy_file h src dst =
     (let dirname = path_dirname h dst in
      bnd (\<lambda>s. case makedirs h dirname (trace s) of
                  None \<Rightarrow> (Inr (), s\<lparr>trace := trace s @ [Makedirs dirname]\<rparr>)
                | Some errno \<Rightarrow>
                    if errno = EEXIST then (Inr (), s\<lparr>trace := trace s @ [Makedirs dirname]\<rparr>)
                    else (Inl (OSError errno), s\<lparr>trace := trace s @ [Makedirs dirname]\<rparr>))
        (\<lambda>_ s. case copy h src dst (trace s) of
                  None \<Rightarrow> (Inr (), s\<lparr>trace := trace s @ [Copy src dst]\<rparr>)
                | Some e \<Rightarrow> (Inl e, s\<lparr>trace := trace s @ [Copy src dst]\<rparr>)))"

fun copy_files :: "host \<Rightarrow> (string \<times> string) list \<Rightarrow> (world, unit) prog" where
  "copy_files h [] = ret ()"
| "copy_files h ((src, dest) # traffic) = bnd (copy_file h src dest) (\<lambda>_. copy_files h traffic)"

definition integrate :: "host \<Rightarrow> (world, unit) prog" where
  "integrate h =
     bnd (bnd (gets (\<lambda>s. transfers (idata s))) (item ''transfers'')) (\<lambda>traffic.
     bnd (bnd (gets (\<lambda>s. representations (idata s))) (item ''representations'')) (\<lambda>reps.
     bnd (insert_many (map RepresentationDoc reps)) (\<lambda>_.
     copy_files h traffic)))"

definition IntegrateAsset_process :: "host \<Rightarrow> ctxdata \<Rightarrow> (world, unit) prog" where
  "IntegrateAsset_process h ctx =
     bnd (register h ctx) (\<lambda>_.
     bnd (integrate h) (\<lambda>_.
     bnd (bnd (gets (\<lambda>s. stagingDir (idata s))) (item ''stagingDir'')) (\<lambda>stagingdir s.
     case rmtree h stagingdir (trace s) of
       None \<Rightarrow> (Inr (), s\<lparr>trace := trace s @ [Rmtree stagingdir]\<rparr>)
     | Some errno \<Rightarrow> (Inl (OSError errno), s\<lparr>trace := trace s @ [Rmtree stagingdir]\<rparr>))))"

section \<open>The validator (plugins/maya/publish/validate_node_ids_unique.py)\<close>

text \<open>
  An instance is the list of its member nodes; \<open>lib.get_id\<close> is the host's, and gives
  \<open>None\<close> for a node without identifier. \<open>ids\<close> is a \<open>defaultdict(list)\<close>, kept here in
  the order in which its keys were first seen.
\<close>

type_synonym node = string

fun dd_append :: "(string \<times> node list) list \<Rightarrow> string \<Rightarrow> node \<Rightarrow> (string \<times> node list) list" where
  \<comment> \<open>\<open>ids[k].append(v)\<close>\<close>
  "dd_append [] k v = [(k, [v])]"
| "dd_append ((k', vs) # rest) k v =
     (if k' = k then (k', vs @ [v]) # rest else (k', vs) # dd_append rest k v)"

fun collect_ids ::
  "(node \<Rightarrow> string option) \<Rightarrow> node list \<Rightarrow> (string \<times> node list) list
     \<Rightarrow> (string \<times> node list) list" where
  "collect_ids get_id [] ids = ids"
| "collect_ids get_id (member # rest) ids =
     (case get_id member of
        None \<Rightarrow> collect_ids get_id rest ids
      | Some object_id \<Rightarrow>
          if object_id = [] then collect_ids get_id rest ids
          else collect_ids get_id rest (dd_append ids object_id member))"

definition get_invalid :: "(node \<Rightarrow> string option) \<Rightarrow> node list \<Rightarrow> node list" where
  "get_invalid get_id instance =
     concat (map snd (filter (\<lambda>(object_id, members). length members > 1)
                        (collect_ids get_id instance [])))"

definition ValidateNodeIdsUnique_process :: "(node \<Rightarrow> string option) \<Rightarrow> node list \<Rightarrow> exn + unit" where
  "ValidateNodeIdsUnique_process get_id instance =
     (let invalid = get_invalid get_id instance in
      if invalid \<noteq> [] then Inl RuntimeError else Inr ())"

section \<open>The loader (plugins/maya/load/load_imagesequence.py)\<close>

text \<open>
  What the loader starts: \<open>subprocess.call(args)\<close> or \<open>os.startfile(path)\<close>. The state
  of the loader is the list of these calls, in the order they were made.
\<close>

datatype launch = SubprocessCall "string list" | Startfile string

text \<open>
  \<open>assemble\<close> is \<open>clique.assemble(files, patterns=[clique.PATTERNS["frames"]],
  minimum_items=1)\<close>: the collections, each as the list \<open>list(collection)\<close> of its
  members, and the remainder.
\<close>

record loader_host =
  sys_platform :: string
  os_name :: string
  l_listdir :: "string \<Rightarrow> int + string list"
  l_join :: "string \<Rightarrow> string \<Rightarrow> string"
  l_normpath :: "string \<Rightarrow> string"
  assemble :: "string list \<Rightarrow> string list list \<times> string list"
  launch_error :: "launch \<Rightarrow> exn option"

definition call :: "loader_host \<Rightarrow> launch \<Rightarrow> (launch list, unit) prog" where
  "call h c = (\<lambda>calls. (case launch_error h c of None \<Rightarrow> Inr () | Some e \<Rightarrow> Inl e, calls @ [c]))"

definition open_file :: "loader_host \<Rightarrow> string \<Rightarrow> (launch list, unit) prog" where
  \<comment> \<open>the module's function \<open>open\<close>\<close>
  "open_file h filepath =
     (if take 6 (sys_platform h) = ''darwin'' then call h (SubprocessCall [''open'', filepath])
      else if os_name h = ''nt'' then call h (Startfile filepath)
      else if os_name h = ''posix'' then call h (SubprocessCall [''xdg-open'', filepath])
      else ret ())"

definition OpenImageSequence_process :: "loader_host \<Rightarrow> string \<Rightarrow> (launch list, unit) prog" where
  "OpenImageSequence_process h directory =
     bnd (lift (map_sum OSError id (l_listdir h directory))) (\<lambda>files.
     let (collections, remainder) = assemble h files in
     bnd (py_assert (remainder = [])) (\<lambda>_.
     bnd (case collections of [] \<Rightarrow> raise IndexError | c # _ \<Rightarrow> ret c) (\<lambda>seqeunce.
     bnd (case seqeunce of [] \<Rightarrow> raise IndexError | f # _ \<Rightarrow> ret f) (\<lambda>first_image.
     let filepath = l_normpath h (l_join h directory first_image) in
     open_file h filepath))))"

section \<open>The point-cache creator (plugins/maya/create/colorbleed_pointcache.py)\<close>

text \<open>
  \<open>super_init\<close> is \<open>self.data\<close> as the base class's constructor leaves it, and
  \<open>collect_animation_data\<close> what \<open>lib.collect_animation_data()\<close> returns; either may
  raise.
\<close>

definition CreatePointCache_init ::
  "exn + (string \<rightharpoonup> pyval) \<Rightarrow> exn + (string \<rightharpoonup> pyval) \<Rightarrow> exn + (string \<rightharpoonup> pyval)" where
  "CreatePointCache_init super_init collect_animation_data =
     (case super_init of
        Inl e \<Rightarrow> Inl e
      | Inr data \<Rightarrow>
          (case collect_animation_data of
             Inl e \<Rightarrow> Inl e
           | Inr animation_data \<Rightarrow>
               Inr ((data ++ animation_data)
                     (''writeColorSets'' \<mapsto> PyBool False,
                      ''renderableOnly'' \<mapsto> PyBool False,
                      ''visibleOnly'' \<mapsto> PyBool False,
                      ''includeParentHierarchy'' \<mapsto> PyBool False,
                      ''worldSpace'' \<mapsto> PyBool True,
                      ''attr'' \<mapsto> PyStr [],
                      ''attrPrefix'' \<mapsto> PyStr []))))"

section \<open>A concrete host\<close>

text \<open>
  A POSIX host on which the definitions above can be run: \<open>posixpath\<close>'s \<open>join\<close>,
  \<open>dirname\<close> and \<open>splitext\<close>, the \<open>{field}\<close> replacement of \<open>str.format\<close>, and a
  file system in which a directory exists once it was made.
\<close>

definition posix_join :: "string \<Rightarrow> string \<Rightarrow> string" where
  "posix_join a b =
     (if b \<noteq> [] \<and> hd b = CHR ''/'' then b
      else if a = [] \<or> last a = CHR ''/'' then a @ b
      else a @ ''/'' @ b)"

definition posix_dirname :: "string \<Rightarrow> string" where
  "posix_dirname p =
     (let head = rev (dropWhile (\<lambda>c. c \<noteq> CHR ''/'') (rev p)) in
      if head \<noteq> [] \<and> (\<exists>c \<in> set head. c \<noteq> CHR ''/'')
      then rev (dropWhile (\<lambda>c. c = CHR ''/'') (rev head)) else head)"

definition posix_splitext :: "string \<Rightarrow> string \<times> string" where
  "posix_splitext p =
     (let base = rev (takeWhile (\<lambda>c. c \<noteq> CHR ''/'') (rev p));
          ext = rev (takeWhile (\<lambda>c. c \<noteq> CHR ''.'') (rev base));
          stem = rev (drop 1 (dropWhile (\<lambda>c. c \<noteq> CHR ''.'') (rev base))) in
      if CHR ''.'' \<in> set base \<and> (\<exists>c \<in> set stem. c \<noteq> CHR ''.'')
      then (take (length p - length ext - 1) p, CHR ''.'' # ext) else (p, []))"

fun show_nat :: "nat \<Rightarrow> string" where
  "show_nat n =
     (if n < 10 then [''0123456789'' ! n]
      else show_nat (n div 10) @ [''0123456789'' ! (n mod 10)])"

fun show_pyval :: "pyval \<Rightarrow> string" where
  "show_pyval (PyStr s) = s"
| "show_pyval (PyInt i) = (if i < 0 then CHR ''-'' # show_nat (nat (- i)) else show_nat (nat i))"
| "show_pyval (PyBool b) = (if b then ''True'' else ''False'')"

fun format_fields :: "(string \<rightharpoonup> pyval) \<Rightarrow> string option \<Rightarrow> string \<Rightarrow> format_error + string" where
  "format_fields d None [] = Inr []"
| "format_fields d (Some f) [] = Inl BadFormat"
| "format_fields d None (c # cs) =
     (if c = CHR ''{'' then format_fields d (Some []) cs
      else map_sum id ((#) c) (format_fields d None cs))"
| "format_fields d (Some f) (c # cs) =
     (if c = CHR ''}''
      then (case d f of
              None \<Rightarrow> Inl (MissingField f)
            | Some v \<Rightarrow> map_sum id ((@) (show_pyval v)) (format_fields d None cs))
      else format_fields d (Some (f @ [c])) cs)"

definition example_host :: host where
  "example_host =
     \<lparr>environ = [(''AVALON_PROJECT'', ''film''), (''AVALON_ASSET'', ''hero''),
                 (''AVALON_SILO'', ''assets''), (''AVALON_LOCATION'', ''studio'')],
      registered_root = ''/projects'',
      path_join = posix_join,
      path_dirname = posix_dirname,
      path_splitext = posix_splitext,
      path_relpath = (\<lambda>p start. if take (length start + 1) p = start @ ''/''
                                  then drop (length start + 1) p else p),
      str_format = (\<lambda>template d. format_fields d None template),
      listdir = (\<lambda>p calls. if p = ''/stage'' then Inr [''model.ma'', ''.metadata.json'']
                            else Inl 2),
      makedirs = (\<lambda>p calls. if Makedirs p \<in> set calls then Some EEXIST else None),
      copy = (\<lambda>src dst calls. None),
      rmtree = (\<lambda>p calls. None)\<rparr>"

definition example_inst :: inst where
  "example_inst =
     \<lparr>asset = None, stagingDir = Some ''/stage'', subset = Some ''modelDefault'',
      assumedVersion = Some 3, transfers = Some [], representations = None,
      dependencies = None, families = Some [''colorbleed.model''], family = None\<rparr>"

definition example_ctx :: ctxdata where
  "example_ctx =
     \<lparr>results = Some [True, True], currentFile = Some ''/projects/film/hero/work.ma'',
      time = Some ''20171004T120000Z'', user = Some ''artist'', comment = None\<rparr>"

definition example_template :: string where
  "example_template = ''{root}/{project}/{asset}/{subset}/v{version}/{subset}.{representation}''"

definition example_world :: world where
  "example_world =
     \<lparr>db = [(1, ProjectDoc example_template),
            (2, AssetDoc ''hero'' 1),
            (3, SubsetDoc ''modelDefault'' 2),
            (4, VersionDoc 3 1 [''studio''] \<lparr>vd_families = [], vd_time = [], vd_author = [],
                  vd_source = [], vd_comment = None, vd_instance = example_inst\<rparr>),
            (5, VersionDoc 3 2 [''studio''] \<lparr>vd_families = [], vd_time = [], vd_author = [],
                  vd_source = [], vd_comment = None, vd_instance = example_inst\<rparr>)],
      trace = [],
      idata = example_inst\<rparr>"

definition example_loader_host :: loader_host where
  "example_loader_host =
     \<lparr>sys_platform = ''linux2'', os_name = ''posix'',
      l_listdir = (\<lambda>p. if p = ''/renders/beauty'' then Inr [''beauty.1001.exr'', ''beauty.1002.exr'']
                        else Inl 2),
      l_join = posix_join,
      l_normpath = (\<lambda>p. p),
      assemble = (\<lambda>files. ([files], [])),
      launch_error = (\<lambda>c. None)\<rparr>"

definition example_get_id :: "node \<Rightarrow> string option" where
  "example_get_id =
     map_of [(''pCube1'', ''5a1f''), (''pCube2'', ''5a1f''), (''pSphere1'', ''7c3e''),
             (''locator1'', [])]"

definition members_of :: "(string \<times> node list) list \<Rightarrow> string \<Rightarrow> node list" where
  \<comment> \<open>\<open>ids[k]\<close> read without inserting: the empty list for a key that is absent\<close>
  "members_of ids k = (case map_of ids k of None \<Rightarrow> [] | Some vs \<Rightarrow> vs)"

section \<open>Basic facts about programs\<close>

lemma bnd_Inr: "bnd m f s = (Inr y, t) \<longleftrightarrow> (\<exists>x s'. m s = (Inr x, s') \<and> f x s' = (Inr y, t))"
  by (auto simp: bnd_def split: prod.splits sum.splits)

lemma bnd_Inl: "bnd m f s = (Inl e, t) \<longleftrightarrow>
    m s = (Inl e, t) \<or> (\<exists>x s'. m s = (Inr x, s') \<and> f x s' = (Inl e, t))"
  by (auto simp: bnd_def split: prod.splits sum.splits)

lemma ret_eq [simp]: "ret x s = (r, t) \<longleftrightarrow> r = Inr x \<and> t = s"
  by (auto simp: ret_def)

lemma raise_eq [simp]: "raise e s = (r, t) \<longleftrightarrow> r = Inl e \<and> t = s"
  by (auto simp: raise_def)

lemma gets_eq [simp]: "gets f s = (r, t) \<longleftrightarrow> r = Inr (f s) \<and> t = s"
  by (auto simp: gets_def)

lemma modify_eq [simp]: "modify f s = (r, t) \<longleftrightarrow> r = Inr () \<and> t = f s"
  by (auto simp: modify_def)

lemma lift_eq [simp]: "lift v s = (r, t) \<longleftrightarrow> r = v \<and> t = s"
  by (auto simp: lift_def)

lemma item_eq [simp]:
  "item k v s = (r, t) \<longleftrightarrow> r = (case v of None \<Rightarrow> Inl (KeyError k) | Some x \<Rightarrow> Inr x) \<and> t = s"
  by (auto simp: item_def split: option.splits)

lemma py_assert_eq [simp]:
  "py_assert b s = (r, t) \<longleftrightarrow> r = (if b then Inr () else Inl AssertionError) \<and> t = s"
  by (auto simp: py_assert_def)

section \<open>The concrete host, evaluated\<close>

lemma example_host_sel [simp]:
  "environ example_host = [(''AVALON_PROJECT'', ''film''), (''AVALON_ASSET'', ''hero''),
                 (''AVALON_SILO'', ''assets''), (''AVALON_LOCATION'', ''studio'')]"
  "registered_root example_host = ''/projects''"
  "path_join example_host = posix_join"
  "path_dirname example_host = posix_dirname"
  "path_splitext example_host = posix_splitext"
  "str_format example_host template d = format_fields d None template"
  "listdir example_host p calls = (if p = ''/stage'' then Inr [''model.ma'', ''.metadata.json''] else Inl 2)"
  "makedirs example_host p calls = (if Makedirs p \<in> set calls then Some EEXIST else None)"
  "copy example_host src dst calls = None"
  "rmtree example_host p calls = None"
  by (simp_all add: example_host_def)

lemma example_world_sel [simp]:
  "trace example_world = []"
  "idata example_world = example_inst"
  by (simp_all add: example_world_def)

lemma posix_dirname_example [simp]: "posix_dirname ''/lib/model.ma'' = ''/lib''"
  by (simp add: posix_dirname_def)

lemma example_loader_host_sel [simp]:
  "sys_platform example_loader_host = ''linux2''"
  "os_name example_loader_host = ''posix''"
  "l_listdir example_loader_host p =
     (if p = ''/renders/beauty'' then Inr [''beauty.1001.exr'', ''beauty.1002.exr''] else Inl 2)"
  "l_join example_loader_host = posix_join"
  "l_normpath example_loader_host p = p"
  "assemble example_loader_host files = ([files], [])"
  "launch_error example_loader_host c = None"
  by (simp_all add: example_loader_host_def)

section \<open>The integrator: copying a file\<close>

text \<open>
  C2. \<open>copy_file\<close> recovers from one error only, the OSError of \<open>os.makedirs\<close> whose errno
  is EEXIST. It raises exactly when \<open>makedirs\<close> fails with an OSError of another errno or
  the copy fails. When \<open>makedirs\<close> fails with another errno, that OSError is raised again
  and nothing is copied; when \<open>makedirs\<close> succeeds or fails with EEXIST, the copy is
  made next and \<open>copy_file\<close> ends as the copy does.
\<close>

theorem copy_file_raises_iff:
  "(is_raise (copy_file h src dst s) \<longleftrightarrow>
      (\<exists>errno. makedirs h (path_dirname h dst) (trace s) = Some errno \<and> errno \<noteq> EEXIST)
      \<or> copy h src dst (trace s @ [Makedirs (path_dirname h dst)]) \<noteq> None)
   \<and> (\<forall>errno. makedirs h (path_dirname h dst) (trace s) = Some errno \<and> errno \<noteq> EEXIST \<longrightarrow>
         copy_file h src dst s
           = (Inl (OSError errno), s\<lparr>trace := trace s @ [Makedirs (path_dirname h dst)]\<rparr>))
   \<and> (makedirs h (path_dirname h dst) (trace s) \<in> {None, Some EEXIST} \<longrightarrow>
         copy_file h src dst s
           = (case copy h src dst (trace s @ [Makedirs (path_dirname h dst)]) of
                None \<Rightarrow> Inr () | Some e \<Rightarrow> Inl e,
              s\<lparr>trace := trace s @ [Makedirs (path_dirname h dst), Copy src dst]\<rparr>))"
  by (auto simp: copy_file_def bnd_def is_raise_def Let_def split: option.splits)

theorem copy_file_raises_iff_witness:
  "makedirs example_host (path_dirname example_host ''/lib/model.ma'') [Makedirs ''/lib''] = Some EEXIST
   \<and> copy_file example_host ''/stage/model.ma'' ''/lib/model.ma'' (example_world\<lparr>trace := [Makedirs ''/lib'']\<rparr>)
       = (Inr (), example_world\<lparr>trace := [Makedirs ''/lib'', Makedirs ''/lib'', Copy ''/stage/model.ma'' ''/lib/model.ma'']\<rparr>)
   \<and> \<not> is_raise (copy_file example_host ''/stage/model.ma'' ''/lib/model.ma''
                      (example_world\<lparr>trace := [Makedirs ''/lib'']\<rparr>))
   \<and> makedirs (example_host\<lparr>makedirs := \<lambda>p calls. Some 13\<rparr>)
        (path_dirname (example_host\<lparr>makedirs := \<lambda>p calls. Some 13\<rparr>) ''/lib/model.ma'') [] = Some 13
   \<and> (13 :: int) \<noteq> EEXIST
   \<and> copy_file (example_host\<lparr>makedirs := \<lambda>p calls. Some 13\<rparr>) ''/stage/model.ma'' ''/lib/model.ma''
        example_world
       = (Inl (OSError 13), example_world\<lparr>trace := [Makedirs ''/lib'']\<rparr>)
   \<and> is_raise (copy_file (example_host\<lparr>makedirs := \<lambda>p calls. Some 13\<rparr>) ''/stage/model.ma''
                  ''/lib/model.ma'' example_world)"
  using copy_file_raises_iff [of example_host "''/stage/model.ma''" "''/lib/model.ma''"
          "example_world\<lparr>trace := [Makedirs ''/lib'']\<rparr>"]
        copy_file_raises_iff [of "example_host\<lparr>makedirs := \<lambda>p calls. Some 13\<rparr>"
          "''/stage/model.ma''" "''/lib/model.ma''" example_world]
  by (simp add: EEXIST_def is_raise_def)

section \<open>The loader: opening the first frame\<close>

text \<open>
  C4. On the platforms the loader runs on (macOS, where \<open>sys.platform\<close> starts with
  \<open>darwin\<close>; Windows, where \<open>os.name\<close> is \<open>nt\<close>; POSIX, where \<open>os.name\<close> is
  \<open>posix\<close>), whenever the listing of the directory assembles into at least one
  collection with no remainder (a collection holds at least one frame, since
  \<open>minimum_items\<close> is 1), \<open>process\<close> starts the platform's default-open mechanism
  exactly once, on the normalized path of the first frame of the first collection:
  \<open>open\<close> on macOS, \<open>os.startfile\<close> on Windows, \<open>xdg-open\<close> on POSIX. It makes no
  other call, and ends as that one call does.
\<close>

theorem open_image_sequence_default_viewer:
  assumes "l_listdir h directory = Inr files"
    and "assemble h files = ((first_image # rest) # cs, [])"
    and "take 6 (sys_platform h) = ''darwin'' \<or> os_name h = ''nt'' \<or> os_name h = ''posix''"
  shows "OpenImageSequence_process h directory calls =
           (let filepath = l_normpath h (l_join h directory first_image);
                c = (if take 6 (sys_platform h) = ''darwin''
                     then SubprocessCall [''open'', filepath]
                     else if os_name h = ''nt'' then Startfile filepath
                     else SubprocessCall [''xdg-open'', filepath])
            in (case launch_error h c of None \<Rightarrow> Inr () | Some e \<Rightarrow> Inl e, calls @ [c]))"
  using assms
  by (auto simp: OpenImageSequence_process_def open_file_def call_def bnd_def lift_def
      py_assert_def ret_def Let_def)

theorem open_image_sequence_default_viewer_witness:
  "OpenImageSequence_process example_loader_host ''/renders/beauty'' []
     = (Inr (), [SubprocessCall [''xdg-open'', ''/renders/beauty/beauty.1001.exr'']])
   \<and> OpenImageSequence_process (example_loader_host\<lparr>sys_platform := ''darwin''\<rparr>)
        ''/renders/beauty'' []
     = (Inr (), [SubprocessCall [''open'', ''/renders/beauty/beauty.1001.exr'']])
   \<and> OpenImageSequence_process (example_loader_host\<lparr>sys_platform := ''win32'', os_name := ''nt''\<rparr>)
        ''/renders/beauty'' []
     = (Inr (), [Startfile ''/renders/beauty/beauty.1001.exr''])"
  using open_image_sequence_default_viewer [of example_loader_host "''/renders/beauty''"
      "[''beauty.1001.exr'', ''beauty.1002.exr'']" "''beauty.1001.exr''" "[''beauty.1002.exr'']"
      "[]" "[]"]
    open_image_sequence_default_viewer [of "example_loader_host\<lparr>sys_platform := ''darwin''\<rparr>"
      "''/renders/beauty''"
      "[''beauty.1001.exr'', ''beauty.1002.exr'']" "''beauty.1001.exr''" "[''beauty.1002.exr'']"
      "[]" "[]"]
    open_image_sequence_default_viewer
      [of "example_loader_host\<lparr>sys_platform := ''win32'', os_name := ''nt''\<rparr>"
      "''/renders/beauty''"
      "[''beauty.1001.exr'', ''beauty.1002.exr'']" "''beauty.1001.exr''" "[''beauty.1002.exr'']"
      "[]" "[]"]
  by (simp add: posix_join_def)

section \<open>The point-cache creator: the data after construction\<close>

text \<open>
  C7. Whenever \<open>CreatePointCache.__init__\<close> completes, its data dictionary holds
  \<open>worldSpace\<close> set to True, \<open>writeColorSets\<close>, \<open>renderableOnly\<close>, \<open>visibleOnly\<close> and
  \<open>includeParentHierarchy\<close> set to False, and \<open>attr\<close> and \<open>attrPrefix\<close> set to the empty
  string, whatever the base class and \<open>collect_animation_data\<close> had put there.
\<close>

theorem CreatePointCache_init_data:
  "CreatePointCache_init super_init collect_animation_data = Inr data \<Longrightarrow>
     data ''worldSpace'' = Some (PyBool True)
     \<and> data ''writeColorSets'' = Some (PyBool False)
     \<and> data ''renderableOnly'' = Some (PyBool False)
     \<and> data ''visibleOnly'' = Some (PyBool False)
     \<and> data ''includeParentHierarchy'' = Some (PyBool False)
     \<and> data ''attr'' = Some (PyStr [])
     \<and> data ''attrPrefix'' = Some (PyStr [])"
  by (auto simp: CreatePointCache_init_def split: sum.splits)

theorem CreatePointCache_init_data_witness:
  "(\<exists>data. CreatePointCache_init
       (Inr [''family'' \<mapsto> PyStr ''colorbleed.pointcache'', ''worldSpace'' \<mapsto> PyBool False])
       (Inr [''startFrame'' \<mapsto> PyInt 1, ''writeColorSets'' \<mapsto> PyBool True]) = Inr data
     \<and> data ''worldSpace'' = Some (PyBool True)
     \<and> data ''writeColorSets'' = Some (PyBool False)
     \<and> data ''renderableOnly'' = Some (PyBool False)
     \<and> data ''visibleOnly'' = Some (PyBool False)
     \<and> data ''includeParentHierarchy'' = Some (PyBool False)
     \<and> data ''attr'' = Some (PyStr [])
     \<and> data ''attrPrefix'' = Some (PyStr [])
     \<and> data ''family'' = Some (PyStr ''colorbleed.pointcache'')
     \<and> data ''startFrame'' = Some (PyInt 1))"
proof -
  obtain data where d: "CreatePointCache_init
       (Inr [''family'' \<mapsto> PyStr ''colorbleed.pointcache'', ''worldSpace'' \<mapsto> PyBool False])
       (Inr [''startFrame'' \<mapsto> PyInt 1, ''writeColorSets'' \<mapsto> PyBool True]) = Inr data"
    by (simp add: CreatePointCache_init_def)
  have extra: "data ''family'' = Some (PyStr ''colorbleed.pointcache'') \<and> data ''startFrame'' = Some (PyInt 1)"
    using d by (auto simp: CreatePointCache_init_def)
  from CreatePointCache_init_data [OF d] d extra show ?thesis by blast
qed

section \<open>The validator: duplicate identifiers\<close>

lemma dd_append_keys: "distinct (map fst ids) \<Longrightarrow> distinct (map fst (dd_append ids k v))"
  and dd_append_fst: "fst ` set (dd_append ids k v) = insert k (fst ` set ids)"
  by (induction ids k v rule: dd_append.induct) (auto split: if_splits)

lemma dd_append_members:
  "members_of (dd_append ids k v) k' = members_of ids k' @ (if k' = k then [v] else [])"
  by (induction ids k v rule: dd_append.induct) (auto simp: members_of_def)

lemma dd_append_nonempty:
  "\<forall>(k, vs) \<in> set ids. vs \<noteq> [] \<Longrightarrow> \<forall>(k, vs) \<in> set (dd_append ids k v). vs \<noteq> []"
  by (induction ids k v rule: dd_append.induct) auto

lemma collect_ids_inv:
  "distinct (map fst ids) \<Longrightarrow> \<forall>(k, vs) \<in> set ids. vs \<noteq> [] \<Longrightarrow>
     distinct (map fst (collect_ids get_id xs ids))
     \<and> (\<forall>(k, vs) \<in> set (collect_ids get_id xs ids). vs \<noteq> [])
     \<and> (\<forall>k. members_of (collect_ids get_id xs ids) k
            = members_of ids k @ filter (\<lambda>m. get_id m = Some k \<and> k \<noteq> []) xs)"
proof (induction xs arbitrary: ids)
  case Nil
  then show ?case by simp
next
  case (Cons x xs)
  show ?case
  proof (cases "get_id x")
    case None
    with Cons show ?thesis by simp
  next
    case (Some oid)
    show ?thesis
    proof (cases "oid = []")
      case True
      with Some Cons show ?thesis by auto
    next
      case False
      have d: "distinct (map fst (dd_append ids oid x))"
        using Cons.prems(1) by (rule dd_append_keys)
      have n: "\<forall>(k, vs) \<in> set (dd_append ids oid x). vs \<noteq> []"
        using Cons.prems(2) by (rule dd_append_nonempty)
      from Cons.IH [OF d n] Some False show ?thesis
        by (auto simp: dd_append_members)
    qed
  qed
qed

lemma two_filtered:
  "1 < length (filter P xs) \<longleftrightarrow> (\<exists>i j. i < j \<and> j < length xs \<and> P (xs ! i) \<and> P (xs ! j))"
proof (induction xs)
  case Nil
  then show ?case by simp
next
  case (Cons x xs)
  have one: "0 < length (filter P xs) \<longleftrightarrow> (\<exists>j < length xs. P (xs ! j))"
    using nth_mem [of _ xs] by (auto simp: filter_empty_conv in_set_conv_nth)
  have split: "(\<exists>i j. i < j \<and> j < length (x # xs) \<and> P ((x # xs) ! i) \<and> P ((x # xs) ! j))
      \<longleftrightarrow> (P x \<and> (\<exists>j < length xs. P (xs ! j)))
         \<or> (\<exists>i j. i < j \<and> j < length xs \<and> P (xs ! i) \<and> P (xs ! j))"
    (is "?L \<longleftrightarrow> ?A \<or> ?B")
  proof
    assume ?L
    then obtain i j where ij: "i < j" "j < length (x # xs)" "P ((x # xs) ! i)" "P ((x # xs) ! j)"
      by blast
    then obtain j' where j': "j = Suc j'" by (cases j) auto
    show "?A \<or> ?B"
    proof (cases i)
      case 0
      with ij j' show ?thesis by auto
    next
      case (Suc i')
      with ij j' have "i' < j' \<and> j' < length xs \<and> P (xs ! i') \<and> P (xs ! j')" by auto
      then show ?thesis by blast
    qed
  next
    assume "?A \<or> ?B"
    then show ?L
    proof
      assume ?A
      then obtain j where "j < length xs" "P (xs ! j)" "P x" by blast
      then have "0 < Suc j \<and> Suc j < length (x # xs) \<and> P ((x # xs) ! 0) \<and> P ((x # xs) ! Suc j)"
        by simp
      then show ?L by blast
    next
      assume ?B
      then obtain i j where "i < j" "j < length xs" "P (xs ! i)" "P (xs ! j)" by blast
      then have "Suc i < Suc j \<and> Suc j < length (x # xs) \<and> P ((x # xs) ! Suc i) \<and> P ((x # xs) ! Suc j)"
        by simp
      then show ?L by blast
    qed
  qed
  show ?case unfolding split using Cons.IH one by auto
qed

lemma get_invalid_nonempty:
  "get_invalid get_id xs \<noteq> [] \<longleftrightarrow>
     (\<exists>k. k \<noteq> [] \<and> 1 < length (filter (\<lambda>m. get_id m = Some k) xs))"
proof -
  let ?ids = "collect_ids get_id xs []"
  have inv: "distinct (map fst ?ids)" "\<forall>(k, vs) \<in> set ?ids. vs \<noteq> []"
    "\<And>k. members_of ?ids k = filter (\<lambda>m. get_id m = Some k \<and> k \<noteq> []) xs"
    using collect_ids_inv [of "[]" get_id xs] by (auto simp: members_of_def)
  have "get_invalid get_id xs \<noteq> [] \<longleftrightarrow> (\<exists>(k, vs) \<in> set ?ids. 1 < length vs)"
    by (force simp: get_invalid_def)
  also have "\<dots> \<longleftrightarrow> (\<exists>k. 1 < length (members_of ?ids k))"
  proof
    assume "\<exists>(k, vs) \<in> set ?ids. 1 < length vs"
    then obtain k vs where "(k, vs) \<in> set ?ids" "1 < length vs" by blast
    with inv(1) have "members_of ?ids k = vs" "1 < length vs" by (auto simp: members_of_def)
    then show "\<exists>k. 1 < length (members_of ?ids k)" by blast
  next
    assume "\<exists>k. 1 < length (members_of ?ids k)"
    then obtain k where k: "1 < length (members_of ?ids k)" by blast
    then obtain vs where "map_of ?ids k = Some vs" "1 < length vs"
      by (auto simp: members_of_def split: option.splits)
    then have "(k, vs) \<in> set ?ids" "1 < length vs" by (auto dest: map_of_SomeD)
    then show "\<exists>(k, vs) \<in> set ?ids. 1 < length vs" by blast
  qed
  also have "\<dots> \<longleftrightarrow> (\<exists>k. k \<noteq> [] \<and> 1 < length (filter (\<lambda>m. get_id m = Some k) xs))"
  proof -
    have "1 < length (filter (\<lambda>m. get_id m = Some k \<and> k \<noteq> []) xs)
        \<longleftrightarrow> k \<noteq> [] \<and> 1 < length (filter (\<lambda>m. get_id m = Some k) xs)" for k
      by (cases "k = []") simp_all
    then show ?thesis unfolding inv(3) by simp
  qed
  finally show ?thesis .
qed


text \<open>
  C3, as the code has it. \<open>process\<close> raises RuntimeError exactly when two different
  entries of the instance's member list (two positions; a node listed twice is two
  entries) carry the same identifier, and that identifier is neither missing nor empty;
  in every other case it returns normally. In particular it returns normally when the
  non-empty identifiers of the entries are pairwise distinct.
\<close>

theorem process_raises_iff_duplicate_id:
  "(ValidateNodeIdsUnique_process get_id members = Inl RuntimeError \<longleftrightarrow>
      (\<exists>i j. i < length members \<and> j < length members \<and> i \<noteq> j
         \<and> get_id (members ! i) = get_id (members ! j)
         \<and> get_id (members ! i) \<noteq> None \<and> get_id (members ! i) \<noteq> Some []))
   \<and> (ValidateNodeIdsUnique_process get_id members = Inr () \<longleftrightarrow>
        ValidateNodeIdsUnique_process get_id members \<noteq> Inl RuntimeError)
   \<and> ((\<forall>i j. i < length members \<and> j < length members \<and> i \<noteq> j
           \<and> get_id (members ! i) \<noteq> None \<and> get_id (members ! i) \<noteq> Some []
         \<longrightarrow> get_id (members ! i) \<noteq> get_id (members ! j))
        \<longrightarrow> ValidateNodeIdsUnique_process get_id members = Inr ())"
proof -
  let ?dup = "\<exists>i j. i < length members \<and> j < length members \<and> i \<noteq> j
         \<and> get_id (members ! i) = get_id (members ! j)
         \<and> get_id (members ! i) \<noteq> None \<and> get_id (members ! i) \<noteq> Some []"
  have "get_invalid get_id members \<noteq> [] \<longleftrightarrow> ?dup"
  proof
    assume "get_invalid get_id members \<noteq> []"
    then obtain k where k: "k \<noteq> []" "1 < length (filter (\<lambda>m. get_id m = Some k) members)"
      unfolding get_invalid_nonempty by blast
    then obtain i j where "i < j" "j < length members" "get_id (members ! i) = Some k"
      "get_id (members ! j) = Some k"
      unfolding two_filtered by blast
    with k(1) have "i < length members \<and> j < length members \<and> i \<noteq> j
         \<and> get_id (members ! i) = get_id (members ! j)
         \<and> get_id (members ! i) \<noteq> None \<and> get_id (members ! i) \<noteq> Some []"
      by simp
    then show ?dup by blast
  next
    assume ?dup
    then obtain i j where ij0: "i < length members" "j < length members" "i \<noteq> j"
      "get_id (members ! i) = get_id (members ! j)"
      "get_id (members ! i) \<noteq> None" "get_id (members ! i) \<noteq> Some []"
      by blast
    from ij0(5) obtain k where k: "get_id (members ! i) = Some k" by (cases "get_id (members ! i)") auto
    with ij0 have ij: "i < length members" "j < length members" "i \<noteq> j"
      "get_id (members ! i) = Some k" "get_id (members ! j) = Some k" "k \<noteq> []"
      by auto
    define a where "a = min i j"
    define b where "b = max i j"
    from ij have "a < b \<and> b < length members \<and> get_id (members ! a) = Some k
        \<and> get_id (members ! b) = Some k"
      by (auto simp: a_def b_def min_def max_def)
    then have "1 < length (filter (\<lambda>m. get_id m = Some k) members)"
      unfolding two_filtered by blast
    with ij(6) show "get_invalid get_id members \<noteq> []"
      unfolding get_invalid_nonempty by blast
  qed
  then show ?thesis
    by (auto simp: ValidateNodeIdsUnique_process_def Let_def)
qed

theorem process_raises_iff_duplicate_id_witness:
  "ValidateNodeIdsUnique_process example_get_id [''pCube1'', ''locator1'', ''pCube2''] = Inl RuntimeError
   \<and> get_invalid example_get_id [''pCube1'', ''locator1'', ''pCube2''] = [''pCube1'', ''pCube2'']
   \<and> ValidateNodeIdsUnique_process example_get_id [''pCube1'', ''locator1'', ''pSphere1''] = Inr ()"
proof -
  have dup: "\<exists>i j. i < length [''pCube1'', ''locator1'', ''pCube2'']
        \<and> j < length [''pCube1'', ''locator1'', ''pCube2''] \<and> i \<noteq> j
        \<and> example_get_id ([''pCube1'', ''locator1'', ''pCube2''] ! i)
            = example_get_id ([''pCube1'', ''locator1'', ''pCube2''] ! j)
        \<and> example_get_id ([''pCube1'', ''locator1'', ''pCube2''] ! i) \<noteq> None
        \<and> example_get_id ([''pCube1'', ''locator1'', ''pCube2''] ! i) \<noteq> Some []"
    by (rule exI [of _ 0], rule exI [of _ 2]) (simp add: example_get_id_def)
  have uniq: "\<forall>i j. i < length [''pCube1'', ''locator1'', ''pSphere1'']
        \<and> j < length [''pCube1'', ''locator1'', ''pSphere1''] \<and> i \<noteq> j
        \<and> example_get_id ([''pCube1'', ''locator1'', ''pSphere1''] ! i) \<noteq> None
        \<and> example_get_id ([''pCube1'', ''locator1'', ''pSphere1''] ! i) \<noteq> Some []
      \<longrightarrow> example_get_id ([''pCube1'', ''locator1'', ''pSphere1''] ! i)
            \<noteq> example_get_id ([''pCube1'', ''locator1'', ''pSphere1''] ! j)"
    by (auto simp: example_get_id_def less_Suc_eq nth_Cons')
  have inv: "get_invalid example_get_id [''pCube1'', ''locator1'', ''pCube2''] = [''pCube1'', ''pCube2'']"
    by (simp add: get_invalid_def example_get_id_def)
  from process_raises_iff_duplicate_id [of example_get_id "[''pCube1'', ''locator1'', ''pCube2'']"]
    process_raises_iff_duplicate_id [of example_get_id "[''pCube1'', ''locator1'', ''pSphere1'']"]
    dup uniq inv
  show ?thesis by blast
qed

text \<open>
  Read over nodes instead of entries, C3 fails: an instance that lists the one node
  \<open>pCube1\<close> twice has no two distinct nodes at all, yet \<open>ids\<close> maps the node's
  identifier to a list of length two, and \<open>process\<close> raises.
\<close>

theorem process_raises_on_repeated_member:
  "ValidateNodeIdsUnique_process example_get_id [''pCube1'', ''pCube1''] = Inl RuntimeError
   \<and> get_invalid example_get_id [''pCube1'', ''pCube1''] = [''pCube1'', ''pCube1'']
   \<and> set [''pCube1'', ''pCube1''] = {''pCube1''}"
  by (simp add: ValidateNodeIdsUnique_process_def get_invalid_def example_get_id_def)

text \<open>
  C8. Members whose identifier is missing or empty are skipped: when no member has a
  non-empty identifier, \<open>get_invalid\<close> returns the empty list and \<open>process\<close> returns
  normally.
\<close>

theorem get_invalid_skips_missing_ids:
  "(\<forall>m \<in> set members. get_id m = None \<or> get_id m = Some []) \<Longrightarrow>
     get_invalid get_id members = [] \<and> ValidateNodeIdsUnique_process get_id members = Inr ()"
proof -
  assume a: "\<forall>m \<in> set members. get_id m = None \<or> get_id m = Some []"
  have "\<not> (\<exists>k. k \<noteq> [] \<and> 1 < length (filter (\<lambda>m. get_id m = Some k) members))"
  proof
    assume "\<exists>k. k \<noteq> [] \<and> 1 < length (filter (\<lambda>m. get_id m = Some k) members)"
    then obtain k where k: "k \<noteq> []" "filter (\<lambda>m. get_id m = Some k) members \<noteq> []" by fastforce
    then obtain m where "m \<in> set members" "get_id m = Some k"
      by (auto simp: filter_empty_conv)
    with a k(1) show False by auto
  qed
  then have "get_invalid get_id members = []"
    using get_invalid_nonempty [of get_id members] by blast
  then show ?thesis by (simp add: ValidateNodeIdsUnique_process_def)
qed

theorem get_invalid_skips_missing_ids_witness:
  "get_invalid example_get_id [''locator1'', ''persp'', ''locator1''] = []
   \<and> ValidateNodeIdsUnique_process example_get_id [''locator1'', ''persp'', ''locator1''] = Inr ()"
proof -
  have h: "\<forall>m \<in> set [''locator1'', ''persp'', ''locator1'']. example_get_id m = None \<or> example_get_id m = Some []"
    by (simp add: example_get_id_def)
  from get_invalid_skips_missing_ids [OF h] h show ?thesis by blast
qed

end
